theory Spec2Isabelle
  imports Complex_Main
begin

section \<open>Python values and exceptions\<close>

text \<open>
  The program is the class \<open>SIR\<close> of \<open>source/SIR.py\<close>: a constructor that merges
  keyword arguments over defaults, validates them, builds a time grid with
  \<open>numpy.linspace\<close> and hands the vector field \<open>__call__\<close> to \<open>scipy.integrate.odeint\<close>.
  Exceptions are values of type \<open>error\<close>; a function that can raise returns
  \<open>error + 'a\<close> with \<open>Inl\<close> the exception.

  Floats are idealised as real numbers: rounding, overflow and the special values of a
  Python \<open>float\<close> are not modelled. The one place where the program's behaviour depends
  on the kind of float is division by zero (a Python number raises, a NumPy scalar yields
  \<open>nan\<close> or \<open>inf\<close>), and that difference is kept: see \<open>py_truediv\<close> and \<open>np_truediv\<close>.
\<close>

datatype error = TypeError | ValueError | ZeroDivisionError | KeyError | IntegrationError

text \<open>
  The Python objects that can be bound to a keyword argument or stand in a tuple.
  \<open>bool\<close> is a subclass of \<open>int\<close>, so \<open>isinstance(True, (int, float))\<close> holds.
\<close>

datatype pyval =
    PNone
  | PBool bool
  | PInt int
  | PFloat real
  | PComplex complex
  | PStr string
  | PTuple "pyval list"
  | PList "pyval list"

text \<open>
  An argument is a plain Python object or a one-dimensional \<open>numpy.ndarray\<close> of
  float64 (arrays inside tuples and lists are outside the model).
\<close>

datatype pyobj = Py pyval | Np "real list"

text \<open>The value of a NumPy float64 expression: finite, or one of \<open>nan\<close>, \<open>inf\<close>, \<open>-inf\<close>.\<close>

datatype fval = Finite real | NonFinite

text \<open>The running total of the builtin \<open>sum\<close>: an int, a float or a complex.\<close>

datatype pynum = NInt int | NFloat real | NComplex complex

text \<open>\<open>isinstance(x, (int, float))\<close>, with the number it denotes.\<close>

fun number_of :: "pyval \<Rightarrow> real option" where
  "number_of (PBool b) = Some (if b then 1 else 0)"
| "number_of (PInt i) = Some (of_int i)"
| "number_of (PFloat x) = Some x"
| "number_of _ = None"

definition is_int_or_float :: "pyval \<Rightarrow> bool" where
  "is_int_or_float v = (number_of v \<noteq> None)"

fun obj_number :: "pyobj \<Rightarrow> real option" where
  "obj_number (Py v) = number_of v"
| "obj_number (Np xs) = None"

text \<open>\<open>isinstance(x, (tuple, list))\<close>, with the elements.\<close>

fun items :: "pyobj \<Rightarrow> pyval list option" where
  "items (Py (PTuple es)) = Some es"
| "items (Py (PList es)) = Some es"
| "items _ = None"

definition is_tuple_or_list :: "pyobj \<Rightarrow> bool" where
  "is_tuple_or_list x = (items x \<noteq> None)"

text \<open>\<open>isinstance(t, (int, float, np.ndarray))\<close>.\<close>

fun is_time :: "pyobj \<Rightarrow> bool" where
  "is_time (Py v) = is_int_or_float v"
| "is_time (Np ts) = True"

subsection \<open>Arithmetic\<close>

text \<open>\<open>a / b\<close> on Python ints and floats: true division, raising on a zero divisor.\<close>

definition py_truediv :: "real \<Rightarrow> real \<Rightarrow> error + real" where
  "py_truediv a b = (if b = 0 then Inl ZeroDivisionError else Inr (a / b))"

text \<open>
  \<open>a / b\<close> on NumPy float64 scalars: a zero divisor raises nothing (NumPy emits a
  \<open>RuntimeWarning\<close>) and the quotient is \<open>nan\<close> or an infinity.
\<close>

definition np_truediv :: "real \<Rightarrow> real \<Rightarrow> fval" where
  "np_truediv a b = (if b = 0 then NonFinite else Finite (a / b))"

fun np_sub :: "fval \<Rightarrow> real \<Rightarrow> fval" where
  "np_sub (Finite a) b = Finite (a - b)"
| "np_sub NonFinite b = NonFinite"

text \<open>\<open>int(x)\<close> on a float truncates toward zero.\<close>

definition py_int :: "real \<Rightarrow> int" where
  "py_int x = (if 0 \<le> x then \<lfloor>x\<rfloor> else \<lceil>x\<rceil>)"

text \<open>
  One step \<open>acc + x\<close> of the builtin \<open>sum\<close>, whose accumulator starts at the int \<open>0\<close>
  and therefore is a number: adding \<open>None\<close>, a string, a tuple or a list to a number
  raises \<open>TypeError\<close>; numbers are promoted int, float, complex.
\<close>

fun lift_num :: "pyval \<Rightarrow> pynum option" where
  "lift_num (PBool b) = Some (NInt (if b then 1 else 0))"
| "lift_num (PInt i) = Some (NInt i)"
| "lift_num (PFloat x) = Some (NFloat x)"
| "lift_num (PComplex z) = Some (NComplex z)"
| "lift_num _ = None"

fun num_real :: "pynum \<Rightarrow> real" where
  "num_real (NInt i) = of_int i"
| "num_real (NFloat x) = x"
| "num_real (NComplex z) = Re z"

fun num_complex :: "pynum \<Rightarrow> complex" where
  "num_complex (NComplex z) = z"
| "num_complex n = of_real (num_real n)"

fun num_add :: "pynum \<Rightarrow> pynum \<Rightarrow> pynum" where
  "num_add (NInt a) (NInt b) = NInt (a + b)"
| "num_add (NComplex a) b = NComplex (a + num_complex b)"
| "num_add a (NComplex b) = NComplex (num_complex a + b)"
| "num_add a b = NFloat (num_real a + num_real b)"

fun py_sum_from :: "pynum \<Rightarrow> pyval list \<Rightarrow> error + pynum" where
  "py_sum_from acc [] = Inr acc"
| "py_sum_from acc (x # xs) =
     (case lift_num x of
        None \<Rightarrow> Inl TypeError
      | Some y \<Rightarrow> py_sum_from (num_add acc y) xs)"

definition py_sum :: "pyval list \<Rightarrow> error + pynum" where
  "py_sum xs = py_sum_from (NInt 0) xs"

text \<open>
  \<open>numpy.linspace(start, stop, num)\<close> with the default \<open>endpoint=True\<close>: a negative
  \<open>num\<close> raises \<open>ValueError\<close>; otherwise the samples are \<open>start + i * step\<close> for
  \<open>i < num\<close> with \<open>step = (stop - start) / (num - 1)\<close>, the last one overwritten by
  \<open>stop\<close> when \<open>num > 1\<close>; a single sample is \<open>start\<close>.
\<close>

definition linspace :: "real \<Rightarrow> real \<Rightarrow> int \<Rightarrow> error + real list" where
  "linspace start stop num =
     (if num < 0 then Inl ValueError
      else
        let n = nat num;
            y = (if 1 < n
                 then map (\<lambda>i. start + real i * ((stop - start) / real (n - 1))) [0..<n]
                 else replicate n start)
        in Inr (if 1 < n then y[n - 1 := stop] else y))"

section \<open>The model: \<open>SIR.__call__\<close>\<close>

text \<open>
  \<^verbatim>\<open>
  def __call__(self, u: tuple, t: float) -> tuple:
      S, I, R = u
      return (-self._beta * S * I / sum(u),
              self._beta * S * I / sum(u) - self._gamma * I, self._gamma * I)
  \<close>
  The state \<open>u\<close> is a tuple or list of Python numbers (\<open>Tup\<close>), as a caller of the
  object passes it, or a float64 array (\<open>Arr\<close>), as \<open>odeint\<close> passes it. The expression
  is the same; the division is Python's in the first case and NumPy's in the second.
  Unpacking a sequence whose length is not 3 raises \<open>ValueError\<close>.

  Overflow is not modelled. A quotient with a divisor that is not zero is given by its real
  value and marked \<open>Finite\<close>, although in float64 a product or a sum of very large values
  can overflow to \<open>inf\<close> and yield \<open>nan\<close>, and a Python int too large for a float raises
  \<open>OverflowError\<close>. The theorems below therefore state which exception is raised and
  which expression is returned, and none of them concludes that a returned value is finite
  in float64.
\<close>

record model =
  beta :: real
  gamma :: real

datatype ustate = Tup "real list" | Arr "real list"

type_synonym deriv = "fval \<times> fval \<times> fval"

fun unpack3 :: "'a list \<Rightarrow> error + ('a \<times> 'a \<times> 'a)" where
  "unpack3 [S, I, R] = Inr (S, I, R)"
| "unpack3 _ = Inl ValueError"

fun call :: "'a model_scheme \<Rightarrow> ustate \<Rightarrow> real \<Rightarrow> error + deriv" where
  "call self (Tup u) t =
     (case unpack3 u of
        Inl e \<Rightarrow> Inl e
      | Inr (S, I, R) \<Rightarrow>
          (case py_truediv (- beta self * S * I) (sum_list u) of
             Inl e \<Rightarrow> Inl e
           | Inr dS \<Rightarrow>
               (case py_truediv (beta self * S * I) (sum_list u) of
                  Inl e \<Rightarrow> Inl e
                | Inr q \<Rightarrow> Inr (Finite dS, Finite (q - gamma self * I), Finite (gamma self * I)))))"
| "call self (Arr u) t =
     (case unpack3 u of
        Inl e \<Rightarrow> Inl e
      | Inr (S, I, R) \<Rightarrow>
          Inr (np_truediv (- beta self * S * I) (sum_list u),
               np_sub (np_truediv (beta self * S * I) (sum_list u)) (gamma self * I),
               Finite (gamma self * I)))"

section \<open>The simulator: \<open>SIR.__init__\<close>, \<open>_calculate\<close> and \<open>solve\<close>\<close>

text \<open>
  Sequencing of statements that can raise: the first exception ends the computation.
\<close>

definition and_then :: "error + 'a \<Rightarrow> ('a \<Rightarrow> error + 'b) \<Rightarrow> error + 'b" where
  "and_then m f = (case m of Inl e \<Rightarrow> Inl e | Inr x \<Rightarrow> f x)"

text \<open>
  \<^verbatim>\<open>
  default_kwargs = {"N0": (100, 1, 0), "T": 100, "dt": 0.1}
  ...
  kwargs = {**default_kwargs, **kwargs}
  \<close>
  A dictionary is a map from keys to objects; \<open>{**a, **b}\<close> is \<open>a ++ b\<close>, where the
  entries of \<open>b\<close> win. Subscripting a dictionary raises \<open>KeyError\<close> on a missing key.
\<close>

type_synonym kwargs = "string \<rightharpoonup> pyobj"

definition default_kwargs :: kwargs where
  "default_kwargs =
     [''N0'' \<mapsto> Py (PTuple [PInt 100, PInt 1, PInt 0]),
      ''T'' \<mapsto> Py (PInt 100),
      ''dt'' \<mapsto> Py (PFloat (1 / 10))]"

definition merge_kwargs :: "kwargs \<Rightarrow> kwargs" where
  "merge_kwargs kwargs = default_kwargs ++ kwargs"

definition subscript :: "kwargs \<Rightarrow> string \<Rightarrow> error + pyobj" where
  "subscript d k = (case d k of None \<Rightarrow> Inl KeyError | Some v \<Rightarrow> Inr v)"

text \<open>
  The object under construction. After the checks of \<open>__init__\<close> the attributes
  \<open>_T\<close> and \<open>_dt\<close> hold numbers, kept here by their values; \<open>_N0\<close> is kept as the
  object that was passed. \<open>_calculate\<close> adds \<open>_total\<close>, \<open>_t\<close> and \<open>_n\<close>.
\<close>

record config = model +
  sir_N0 :: pyobj
  sir_T :: real
  sir_dt :: real

record sir = config +
  sir_total :: pynum
  sir_t :: "real list"
  sir_n :: "fval list list"

text \<open>
  \<open>scipy.integrate.odeint(func, y0, t)\<close> is a library outside the repository: it is a
  parameter of the model. It receives the vector field, the initial state and the time
  grid as they are passed, and returns the rows of the trajectory or raises.
\<close>

type_synonym field = "ustate \<Rightarrow> real \<Rightarrow> error + deriv"

type_synonym integrator = "field \<Rightarrow> pyobj \<Rightarrow> pyobj \<Rightarrow> error + fval list list"

text \<open>
  \<^verbatim>\<open>
  def solve(self, u0: tuple, t: float) -> tuple:
      if not isinstance(u0, (list, tuple)):
          raise TypeError
      for element in u0:
          if not isinstance(element, (int, float)):
              raise ValueError
      if not isinstance(t, (int, float, np.ndarray)):
          raise TypeError
      return integrate.odeint(self, u0, t)
  \<close>
\<close>

fun check_elements :: "pyval list \<Rightarrow> error + unit" where
  "check_elements [] = Inr ()"
| "check_elements (element # rest) =
     (if \<not> is_int_or_float element then Inl ValueError else check_elements rest)"

definition solve :: "integrator \<Rightarrow> 'a model_scheme \<Rightarrow> pyobj \<Rightarrow> pyobj \<Rightarrow> error + fval list list" where
  "solve odeint self u0 t =
     (case items u0 of
        None \<Rightarrow> Inl TypeError
      | Some elements \<Rightarrow>
          and_then (check_elements elements) (\<lambda>_.
            if \<not> is_time t then Inl TypeError
            else odeint (call self) u0 t))"

text \<open>
  \<open>sum(self._N0)\<close>: over a tuple or list it adds the elements to the int \<open>0\<close>; over an
  array it adds the entries; the empty string has no characters to add; any other object
  of the model is not iterable or holds something that cannot be added to a number.
\<close>

fun py_sum_obj :: "pyobj \<Rightarrow> error + pynum" where
  "py_sum_obj (Py (PTuple es)) = py_sum es"
| "py_sum_obj (Py (PList es)) = py_sum es"
| "py_sum_obj (Py (PStr s)) = (if s = [] then Inr (NInt 0) else Inl TypeError)"
| "py_sum_obj (Py v) = Inl TypeError"
| "py_sum_obj (Np xs) = Inr (if xs = [] then NInt 0 else NFloat (sum_list xs))"

text \<open>
  \<^verbatim>\<open>
  def _calculate(self) -> None:
      self._total = sum(self._N0)
      self._t = t = np.linspace(0, self._T, int(self._T / self._dt))
      self._n = self.solve(self._N0, t)
  \<close>
\<close>

definition calculate :: "integrator \<Rightarrow> config \<Rightarrow> error + sir" where
  "calculate odeint self =
     and_then (py_sum_obj (sir_N0 self)) (\<lambda>total.
     and_then (py_truediv (sir_T self) (sir_dt self)) (\<lambda>q.
     and_then (linspace 0 (sir_T self) (py_int q)) (\<lambda>t.
     and_then (solve odeint self (sir_N0 self) (Np t)) (\<lambda>n.
       Inr \<lparr>beta = beta self, gamma = gamma self,
            sir_N0 = sir_N0 self, sir_T = sir_T self, sir_dt = sir_dt self,
            sir_total = total, sir_t = t, sir_n = n\<rparr>))))"

text \<open>
  \<^verbatim>\<open>
  def __init__(self, beta: float, gamma: float, ** kwargs) -> None:
      # TODO: Check beta/gamma
      self._beta = beta
      self._gamma = gamma
      kwargs = {**default_kwargs, **kwargs}
      if not isinstance(kwargs["N0"], (tuple, list)):
          raise TypeError
      if not isinstance(kwargs["T"], (int, float)):
          raise TypeError
      if not isinstance(kwargs["dt"], (int, float)):
          raise TypeError
      if kwargs["dt"] > kwargs["T"]:
          raise ValueError
      self._N0 = kwargs["N0"]
      self._T = kwargs["T"]
      self._dt = kwargs["dt"]
      self._calculate()
  \<close>
  \<open>validate\<close> is the merge and the four checks; it returns the three values that are
  then stored. \<open>init\<close> is the whole constructor.
\<close>

definition validate :: "kwargs \<Rightarrow> error + (pyobj \<times> real \<times> real)" where
  "validate kwargs =
     (let kwargs = merge_kwargs kwargs in
      and_then (subscript kwargs ''N0'') (\<lambda>N0.
        if \<not> is_tuple_or_list N0 then Inl TypeError
        else
          and_then (subscript kwargs ''T'') (\<lambda>T.
            case obj_number T of
              None \<Rightarrow> Inl TypeError
            | Some T \<Rightarrow>
                and_then (subscript kwargs ''dt'') (\<lambda>dt.
                  case obj_number dt of
                    None \<Rightarrow> Inl TypeError
                  | Some dt \<Rightarrow> if dt > T then Inl ValueError else Inr (N0, T, dt)))))"

definition init :: "integrator \<Rightarrow> real \<Rightarrow> real \<Rightarrow> kwargs \<Rightarrow> error + sir" where
  "init odeint b g kwargs =
     and_then (validate kwargs) (\<lambda>(N0, T, dt).
       calculate odeint
         \<lparr>beta = b, gamma = g, sir_N0 = N0, sir_T = T, sir_dt = dt\<rparr>)"

subsection \<open>An integrator to run the constructor with\<close>

text \<open>
  The explicit Euler scheme over the given grid, as one integrator of the interface
  above: the first row is the initial state and each further row advances the previous
  one by the field times the grid spacing. It needs a grid that holds the initial time,
  and stops when the field is not finite.
\<close>

fun finite3 :: "deriv \<Rightarrow> real list option" where
  "finite3 (Finite a, Finite b, Finite c) = Some [a, b, c]"
| "finite3 _ = None"

fun euler_steps :: "field \<Rightarrow> real list \<Rightarrow> real \<Rightarrow> real list \<Rightarrow> error + fval list list" where
  "euler_steps f y t [] = Inr []"
| "euler_steps f y t (t' # ts) =
     (case f (Arr y) t of
        Inl e \<Rightarrow> Inl e
      | Inr d \<Rightarrow>
          (case finite3 d of
             None \<Rightarrow> Inl IntegrationError
           | Some ds \<Rightarrow>
               (case euler_steps f (map2 (\<lambda>a b. a + (t' - t) * b) y ds) t' ts of
                  Inl e \<Rightarrow> Inl e
                | Inr rows \<Rightarrow> Inr (map Finite (map2 (\<lambda>a b. a + (t' - t) * b) y ds) # rows))))"

fun numbers_of :: "pyval list \<Rightarrow> real list option" where
  "numbers_of [] = Some []"
| "numbers_of (e # es) =
     (case number_of e of
        None \<Rightarrow> None
      | Some x \<Rightarrow> (case numbers_of es of None \<Rightarrow> None | Some xs \<Rightarrow> Some (x # xs)))"

fun euler :: integrator where
  "euler f u0 (Np []) = Inl ValueError"
| "euler f u0 (Np (t0 # ts)) =
     (case items u0 of
        None \<Rightarrow> Inl TypeError
      | Some es \<Rightarrow>
          (case numbers_of es of
             None \<Rightarrow> Inl ValueError
           | Some y0 \<Rightarrow>
               (case euler_steps f y0 t0 ts of
                  Inl e \<Rightarrow> Inl e
                | Inr rows \<Rightarrow> Inr (map Finite y0 # rows))))"
| "euler f u0 (Py v) = Inl ValueError"

text \<open>
  What the constructor relies on from any integrator: one row per point of the grid.
\<close>

definition one_row_per_point :: "integrator \<Rightarrow> bool" where
  "one_row_per_point odeint =
     (\<forall>f u0 ts rows. odeint f u0 (Np ts) = Inr rows \<longrightarrow> length rows = length ts)"

section \<open>Auxiliary facts\<close>

lemma and_then_Inr [simp]: "and_then (Inr x) f = f x"
  by (simp add: and_then_def)

lemma and_then_Inl [simp]: "and_then (Inl e) f = Inl e"
  by (simp add: and_then_def)

lemma and_then_eq_Inr:
  "and_then m f = Inr y \<longleftrightarrow> (\<exists>x. m = Inr x \<and> f x = Inr y)"
  by (cases m) simp_all

lemma merge_kwargs_lookup:
  "merge_kwargs kwargs k = (case kwargs k of Some v \<Rightarrow> Some v | None \<Rightarrow> default_kwargs k)"
  by (simp add: merge_kwargs_def map_add_def split: option.splits)

lemma merge_kwargs_populated:
  "merge_kwargs kwargs ''N0'' \<noteq> None"
  "merge_kwargs kwargs ''T'' \<noteq> None"
  "merge_kwargs kwargs ''dt'' \<noteq> None"
  by (simp_all add: merge_kwargs_lookup default_kwargs_def split: option.splits)

lemma validate_unfold:
  assumes "merge_kwargs kwargs ''N0'' = Some N0"
    and "merge_kwargs kwargs ''T'' = Some Tobj"
    and "merge_kwargs kwargs ''dt'' = Some dtobj"
  shows "validate kwargs =
     (if \<not> is_tuple_or_list N0 then Inl TypeError
      else case obj_number Tobj of
          None \<Rightarrow> Inl TypeError
        | Some T \<Rightarrow>
            (case obj_number dtobj of
               None \<Rightarrow> Inl TypeError
             | Some dt \<Rightarrow> if dt > T then Inl ValueError else Inr (N0, T, dt)))"
  using assms by (simp add: validate_def subscript_def Let_def split: option.splits)


lemma check_elements_eq:
  "check_elements es = (if list_all is_int_or_float es then Inr () else Inl ValueError)"
  by (induction es) simp_all

lemma solve_eq:
  "solve od self u0 t =
     (case items u0 of
        None \<Rightarrow> Inl TypeError
      | Some es \<Rightarrow>
          if \<not> list_all is_int_or_float es then Inl ValueError
          else if \<not> is_time t then Inl TypeError
          else od (call self) u0 t)"
  by (simp add: solve_def check_elements_eq split: option.splits)

lemma call_Tup_nonzero:
  "S + I + R \<noteq> 0 \<Longrightarrow> call self (Tup [S, I, R]) t =
     Inr (Finite (- beta self * S * I / (S + I + R)),
          Finite (beta self * S * I / (S + I + R) - gamma self * I),
          Finite (gamma self * I))"
  by (simp add: py_truediv_def)

lemma call_Arr_nonzero:
  "S + I + R \<noteq> 0 \<Longrightarrow> call self (Arr [S, I, R]) t =
     Inr (Finite (- beta self * S * I / (S + I + R)),
          Finite (beta self * S * I / (S + I + R) - gamma self * I),
          Finite (gamma self * I))"
  by (simp add: np_truediv_def)

lemma call_time_independent: "call self u t = call self u t'"
  by (cases u) simp_all

section \<open>The vector field\<close>

text \<open>
  Claim C1. On a state \<open>(S, I, R)\<close> whose sum \<open>N = S + I + R\<close> is not zero, the vector
  field returns exactly \<open>(-beta * S * I / N, beta * S * I / N - gamma * I, gamma * I)\<close>,
  with \<open>N\<close> the sum of the state that was passed; this holds for a state given as a tuple
  of Python numbers and for one given as an array, and the result is the same at every
  time \<open>t\<close>.
\<close>

theorem call_vector_field:
  assumes "S + I + R \<noteq> 0"
  shows "call self (Tup [S, I, R]) t =
           Inr (Finite (- beta self * S * I / (S + I + R)),
                Finite (beta self * S * I / (S + I + R) - gamma self * I),
                Finite (gamma self * I))
       \<and> call self (Arr [S, I, R]) t = call self (Tup [S, I, R]) t
       \<and> call self (Tup [S, I, R]) t' = call self (Tup [S, I, R]) t
       \<and> call self (Arr [S, I, R]) t' = call self (Arr [S, I, R]) t"
proof -
  have "call self (Arr [S, I, R]) t = call self (Tup [S, I, R]) t"
    by (simp only: call_Tup_nonzero [OF assms] call_Arr_nonzero [OF assms])
  moreover have "call self (Tup [S, I, R]) t' = call self (Tup [S, I, R]) t"
    by (rule call_time_independent)
  moreover have "call self (Arr [S, I, R]) t' = call self (Arr [S, I, R]) t"
    by (rule call_time_independent)
  ultimately show ?thesis
    using call_Tup_nonzero [OF assms, of self t] by blast
qed

theorem call_vector_field_witness:
  "(100::real) + 1 + 0 \<noteq> 0 \<and>
   call \<lparr>beta = 3 / 10, gamma = 1 / 10\<rparr> (Tup [100, 1, 0]) 7 =
     Inr (Finite (- (30 / 101)), Finite (199 / 1010), Finite (1 / 10)) \<and>
   call \<lparr>beta = 3 / 10, gamma = 1 / 10\<rparr> (Arr [100, 1, 0]) 7 =
     Inr (Finite (- (30 / 101)), Finite (199 / 1010), Finite (1 / 10))"
proof -
  have h: "(100::real) + 1 + 0 \<noteq> 0" by simp
  show ?thesis
    using h call_vector_field [OF h, of "\<lparr>beta = 3 / 10, gamma = 1 / 10\<rparr>" 7 0] by simp
qed




section \<open>Configuration\<close>



section \<open>The integration call\<close>

lemma is_time_iff: "is_time t \<longleftrightarrow> obj_number t \<noteq> None \<or> (\<exists>ts. t = Np ts)"
  by (cases t) (simp_all add: is_int_or_float_def)

lemma check_elements_first:
  "\<not> is_int_or_float e \<Longrightarrow> check_elements (xs @ e # ys) = Inl ValueError"
  by (induction xs) simp_all

text \<open>
  Claim C6, as the code has it. \<open>solve\<close> raises \<open>TypeError\<close> when the initial state is
  not a list or tuple; otherwise it checks the elements one by one and raises
  \<open>ValueError\<close> as soon as one is not an int or float; otherwise it raises \<open>TypeError\<close>
  unless the time grid is an int, a float or a NumPy array, and then calls the integrator.
  A list or tuple of numbers is not an admissible time grid.
\<close>

theorem solve_checks:
  "solve od self u0 t =
     (case items u0 of
        None \<Rightarrow> Inl TypeError
      | Some es \<Rightarrow>
          if \<not> list_all is_int_or_float es then Inl ValueError
          else if \<not> is_time t then Inl TypeError
          else od (call self) u0 t)
   \<and> (is_time t \<longleftrightarrow> obj_number t \<noteq> None \<or> (\<exists>ts. t = Np ts))
   \<and> \<not> is_time (Py (PList es')) \<and> \<not> is_time (Py (PTuple es'))"
  by (simp add: solve_eq is_time_iff is_int_or_float_def)

text \<open>
  The claim as the specification states it fails on a time grid given as a list of
  numbers, which is an ordered sequence of numbers and is rejected.
\<close>

theorem solve_rejects_list_grid:
  "solve euler \<lparr>beta = 3 / 10, gamma = 1 / 10\<rparr>
     (Py (PTuple [PInt 100, PInt 1, PInt 0])) (Py (PList [PFloat 0, PFloat 1]))
   = Inl TypeError"
  by (simp add: solve_eq is_int_or_float_def)

theorem solve_checks_witness:
  "solve euler \<lparr>beta = 3 / 10, gamma = 1 / 10\<rparr> (Py (PStr ''abc'')) (Np [0]) = Inl TypeError
   \<and> solve euler \<lparr>beta = 3 / 10, gamma = 1 / 10\<rparr>
        (Py (PTuple [PInt 100, PStr ''x'', PInt 0])) (Np [0]) = Inl ValueError
   \<and> solve euler \<lparr>beta = 3 / 10, gamma = 1 / 10\<rparr>
        (Py (PTuple [PInt 100, PInt 1, PInt 0])) (Py PNone) = Inl TypeError
   \<and> solve euler \<lparr>beta = 3 / 10, gamma = 1 / 10\<rparr>
        (Py (PTuple [PInt 100, PInt 1, PInt 0])) (Np [0])
      = Inr [[Finite 100, Finite 1, Finite 0]]"
  using solve_checks [of euler "\<lparr>beta = 3 / 10, gamma = 1 / 10\<rparr>" "Py (PStr ''abc'')" "Np [0]" "[]"]
    solve_checks [of euler "\<lparr>beta = 3 / 10, gamma = 1 / 10\<rparr>"
          "Py (PTuple [PInt 100, PStr ''x'', PInt 0])" "Np [0]" "[]"]
    solve_checks [of euler "\<lparr>beta = 3 / 10, gamma = 1 / 10\<rparr>"
          "Py (PTuple [PInt 100, PInt 1, PInt 0])" "Py PNone" "[]"]
    solve_checks [of euler "\<lparr>beta = 3 / 10, gamma = 1 / 10\<rparr>"
          "Py (PTuple [PInt 100, PInt 1, PInt 0])" "Np [0]" "[]"]
  by (simp add: is_int_or_float_def)

section \<open>Validation in the constructor\<close>

lemma init_unfold:
  "validate kwargs = Inr (N0, T, dt) \<Longrightarrow>
   init od b g kwargs =
     calculate od \<lparr>beta = b, gamma = g, sir_N0 = N0, sir_T = T, sir_dt = dt\<rparr>"
  by (simp add: init_def)

lemma init_validate_error: "validate kwargs = Inl e \<Longrightarrow> init od b g kwargs = Inl e"
  by (simp add: init_def)

text \<open>
  Claim C4, as the code has it. When \<open>N0\<close> is a tuple or list and \<open>T\<close> and \<open>dt\<close> are
  numbers, the checks of the constructor fail if and only if \<open>dt > T\<close>, and then with
  \<open>ValueError\<close>; when \<open>dt <= T\<close> they pass and the constructor goes on to
  \<open>_calculate\<close> with the three merged values.
\<close>

theorem validate_dt_check:
  assumes "merge_kwargs kwargs ''N0'' = Some N0" and "is_tuple_or_list N0"
    and "merge_kwargs kwargs ''T'' = Some Tobj" and "obj_number Tobj = Some T"
    and "merge_kwargs kwargs ''dt'' = Some dtobj" and "obj_number dtobj = Some dt"
  shows "(validate kwargs = Inl ValueError \<longleftrightarrow> dt > T)
       \<and> (dt > T \<longrightarrow> init od b g kwargs = Inl ValueError)
       \<and> (dt \<le> T \<longrightarrow> validate kwargs = Inr (N0, T, dt)
            \<and> init od b g kwargs =
                calculate od \<lparr>beta = b, gamma = g, sir_N0 = N0, sir_T = T, sir_dt = dt\<rparr>)"
proof -
  have v: "validate kwargs = (if dt > T then Inl ValueError else Inr (N0, T, dt))"
    using assms by (simp add: validate_unfold)
  show ?thesis
  proof (cases "dt > T")
    case True
    then show ?thesis using v by (simp add: init_validate_error)
  next
    case False
    then show ?thesis using v by (simp add: init_unfold)
  qed
qed

text \<open>
  The claim as the specification states it fails in both directions: with \<open>dt <= T\<close>
  the constructor still raises \<open>ValueError\<close> when \<open>int(T / dt)\<close> is negative (from
  \<open>linspace\<close>), and with \<open>dt > T\<close> it raises \<open>TypeError\<close> when \<open>N0\<close> is not a
  sequence, since that check comes first.
\<close>

theorem init_errors_beside_dt_check:
  "\<not> ((- 1 :: real) > 10) \<and>
   init euler (3 / 10) (1 / 10) [''T'' \<mapsto> Py (PInt 10), ''dt'' \<mapsto> Py (PInt (- 1))]
     = Inl ValueError
   \<and> (50 :: real) > 10 \<and>
   init euler (3 / 10) (1 / 10)
     [''N0'' \<mapsto> Py (PStr ''abc''), ''T'' \<mapsto> Py (PInt 10), ''dt'' \<mapsto> Py (PInt 50)]
     = Inl TypeError"
  by (simp add: init_def validate_def merge_kwargs_def default_kwargs_def subscript_def
      is_tuple_or_list_def calculate_def py_sum_def py_truediv_def py_int_def linspace_def)

theorem validate_dt_check_witness:
  "validate [''T'' \<mapsto> Py (PInt 10), ''dt'' \<mapsto> Py (PInt 50)] = Inl ValueError
   \<and> init euler (3 / 10) (1 / 10) [''T'' \<mapsto> Py (PInt 10), ''dt'' \<mapsto> Py (PInt 50)] = Inl ValueError
   \<and> validate [''T'' \<mapsto> Py (PInt 10), ''dt'' \<mapsto> Py (PInt 5)]
       = Inr (Py (PTuple [PInt 100, PInt 1, PInt 0]), 10, 5)"
proof -
  let ?N0 = "Py (PTuple [PInt 100, PInt 1, PInt 0])"
  let ?hi = "[''T'' \<mapsto> Py (PInt 10), ''dt'' \<mapsto> Py (PInt 50)]"
  let ?lo = "[''T'' \<mapsto> Py (PInt 10), ''dt'' \<mapsto> Py (PInt 5)]"
  have n: "is_tuple_or_list ?N0" by (simp add: is_tuple_or_list_def)
  have hi: "merge_kwargs ?hi ''N0'' = Some ?N0" "merge_kwargs ?hi ''T'' = Some (Py (PInt 10))"
    "merge_kwargs ?hi ''dt'' = Some (Py (PInt 50))"
    by (simp_all add: merge_kwargs_lookup default_kwargs_def)
  have lo: "merge_kwargs ?lo ''N0'' = Some ?N0" "merge_kwargs ?lo ''T'' = Some (Py (PInt 10))"
    "merge_kwargs ?lo ''dt'' = Some (Py (PInt 5))"
    by (simp_all add: merge_kwargs_lookup default_kwargs_def)
  have t: "obj_number (Py (PInt 10)) = Some 10" "obj_number (Py (PInt 50)) = Some 50"
    "obj_number (Py (PInt 5)) = Some 5" by simp_all
  show ?thesis
    using validate_dt_check [OF hi(1) n hi(2) t(1) hi(3) t(2), of euler "3 / 10" "1 / 10"]
      validate_dt_check [OF lo(1) n lo(2) t(1) lo(3) t(3), of euler "3 / 10" "1 / 10"]
    by simp
qed

lemma validate_InrD:
  assumes "validate kwargs = Inr (N0, T, dt)"
  shows "merge_kwargs kwargs ''N0'' = Some N0 \<and> is_tuple_or_list N0
       \<and> (\<exists>Tobj. merge_kwargs kwargs ''T'' = Some Tobj \<and> obj_number Tobj = Some T)
       \<and> (\<exists>dtobj. merge_kwargs kwargs ''dt'' = Some dtobj \<and> obj_number dtobj = Some dt)
       \<and> dt \<le> T"
proof -
  obtain N0' Tobj dtobj where m: "merge_kwargs kwargs ''N0'' = Some N0'"
    "merge_kwargs kwargs ''T'' = Some Tobj" "merge_kwargs kwargs ''dt'' = Some dtobj"
    using merge_kwargs_populated [of kwargs] by auto
  show ?thesis
    using assms unfolding validate_unfold [OF m] m
    by (auto split: if_splits option.splits)
qed

lemma merge_kwargs_upd:
  "merge_kwargs (kwargs(k \<mapsto> v)) k' = (if k' = k then Some v else merge_kwargs kwargs k')"
  by (simp add: merge_kwargs_lookup)

lemma validate_any_sequence:
  assumes "validate kwargs = Inr (N0, T, dt)" and "is_tuple_or_list N0'"
  shows "validate (kwargs(''N0'' \<mapsto> N0')) = Inr (N0', T, dt)"
proof -
  from validate_InrD [OF assms(1)] obtain Tobj dtobj where
    m: "merge_kwargs kwargs ''T'' = Some Tobj" "obj_number Tobj = Some T"
    "merge_kwargs kwargs ''dt'' = Some dtobj" "obj_number dtobj = Some dt" "dt \<le> T"
    by auto
  have "merge_kwargs (kwargs(''N0'' \<mapsto> N0')) ''N0'' = Some N0'"
    and "merge_kwargs (kwargs(''N0'' \<mapsto> N0')) ''T'' = Some Tobj"
    and "merge_kwargs (kwargs(''N0'' \<mapsto> N0')) ''dt'' = Some dtobj"
    using m by (simp_all add: merge_kwargs_upd)
  then show ?thesis
    using m assms(2) by (simp add: validate_unfold)
qed

lemma py_sum_obj_items: "items N0 = Some es \<Longrightarrow> py_sum_obj N0 = py_sum es"
  by (cases N0 rule: items.cases) simp_all




lemma linspace_ok: "0 \<le> num \<Longrightarrow> \<exists>ts. linspace a b num = Inr ts"
  by (simp add: linspace_def Let_def)

lemma calculate_element_error:
  assumes "items N0 = Some es" and "py_sum es = Inr tot" and "dt \<noteq> 0"
    and "0 \<le> py_int (T / dt)" and "\<not> list_all is_int_or_float es"
  shows "calculate od \<lparr>beta = b, gamma = g, sir_N0 = N0, sir_T = T, sir_dt = dt\<rparr>
           = Inl ValueError"
proof -
  obtain ts where "linspace 0 T (py_int (T / dt)) = Inr ts"
    using linspace_ok [OF assms(4)] by blast
  then show ?thesis
    using assms by (simp add: calculate_def py_sum_obj_items py_truediv_def solve_eq)
qed

text \<open>
  Claim C5, as the code has it. The constructor raises \<open>TypeError\<close> when \<open>N0\<close> is not
  a tuple or list; any tuple or list passes its checks, whatever its length and elements.
  \<open>solve\<close> raises \<open>ValueError\<close> when an element of the initial state is not an int or
  float and otherwise hands any list or tuple to the integrator, whatever its length. In a
  construction whose \<open>sum(N0)\<close> and time grid succeed, an element of \<open>N0\<close> that is not
  an int or float makes the constructor raise \<open>ValueError\<close>, from \<open>solve\<close>.
\<close>

theorem N0_checks:
  "(merge_kwargs kwargs ''N0'' = Some x \<and> \<not> is_tuple_or_list x
      \<longrightarrow> init od b g kwargs = Inl TypeError)
   \<and> (validate kwargs = Inr (given, T, dt) \<and> is_tuple_or_list other
      \<longrightarrow> validate (kwargs(''N0'' \<mapsto> other)) = Inr (other, T, dt))
   \<and> (items state = Some es \<and> \<not> list_all is_int_or_float es
      \<longrightarrow> solve od self state t = Inl ValueError)
   \<and> (items state = Some es \<and> list_all is_int_or_float es \<and> is_time t
      \<longrightarrow> solve od self state t = od (call self) state t)
   \<and> (validate kwargs = Inr (given, T, dt) \<and> items given = Some es \<and> py_sum es = Inr tot
        \<and> dt \<noteq> 0 \<and> 0 \<le> py_int (T / dt) \<and> \<not> list_all is_int_or_float es
      \<longrightarrow> init od b g kwargs = Inl ValueError)"
proof (intro conjI impI)
  assume a: "merge_kwargs kwargs ''N0'' = Some x \<and> \<not> is_tuple_or_list x"
  obtain Tobj dtobj where "merge_kwargs kwargs ''T'' = Some Tobj"
    and "merge_kwargs kwargs ''dt'' = Some dtobj"
    using merge_kwargs_populated [of kwargs] by auto
  with a have "validate kwargs = Inl TypeError"
    by (simp add: validate_unfold)
  then show "init od b g kwargs = Inl TypeError"
    by (rule init_validate_error)
next
  assume "validate kwargs = Inr (given, T, dt) \<and> is_tuple_or_list other"
  then show "validate (kwargs(''N0'' \<mapsto> other)) = Inr (other, T, dt)"
    by (simp add: validate_any_sequence)
next
  assume "items state = Some es \<and> \<not> list_all is_int_or_float es"
  then show "solve od self state t = Inl ValueError"
    by (simp add: solve_eq)
next
  assume "items state = Some es \<and> list_all is_int_or_float es \<and> is_time t"
  then show "solve od self state t = od (call self) state t"
    by (simp add: solve_eq)
next
  assume a: "validate kwargs = Inr (given, T, dt) \<and> items given = Some es \<and> py_sum es = Inr tot
        \<and> dt \<noteq> 0 \<and> 0 \<le> py_int (T / dt) \<and> \<not> list_all is_int_or_float es"
  then have "init od b g kwargs =
      calculate od \<lparr>beta = b, gamma = g, sir_N0 = given, sir_T = T, sir_dt = dt\<rparr>"
    by (simp add: init_unfold)
  then show "init od b g kwargs = Inl ValueError"
    using a by (simp add: calculate_element_error)
qed

text \<open>
  The claim as the specification states it fails: with a string among the elements of
  \<open>N0\<close> the constructor raises \<open>TypeError\<close>, from \<open>sum\<close>, before \<open>solve\<close> is called; and
  a tuple of two numbers passes every check of the constructor and of \<open>solve\<close>.
\<close>

theorem N0_string_element_and_short_tuple:
  "init euler (3 / 10) (1 / 10) [''N0'' \<mapsto> Py (PTuple [PInt 100, PStr ''x'', PInt 0])]
     = Inl TypeError
   \<and> validate [''N0'' \<mapsto> Py (PTuple [PInt 100, PInt 1])]
     = Inr (Py (PTuple [PInt 100, PInt 1]), 100, 1 / 10)
   \<and> solve euler \<lparr>beta = 3 / 10, gamma = 1 / 10\<rparr> (Py (PTuple [PInt 100, PInt 1])) (Np [0])
     = Inr [[Finite 100, Finite 1]]"
  by (simp add: init_def validate_def merge_kwargs_def default_kwargs_def subscript_def
      is_tuple_or_list_def calculate_def py_sum_def solve_eq is_int_or_float_def)

theorem N0_checks_witness:
  "init euler (3 / 10) (1 / 10) [''N0'' \<mapsto> Py (PStr ''abc'')] = Inl TypeError
   \<and> validate [''N0'' \<mapsto> Py (PList [PInt 1])] = Inr (Py (PList [PInt 1]), 100, 1 / 10)
   \<and> solve euler \<lparr>beta = 3 / 10, gamma = 1 / 10\<rparr>
        (Py (PTuple [PInt 100, PStr ''x'', PInt 0])) (Np [0]) = Inl ValueError
   \<and> solve euler \<lparr>beta = 3 / 10, gamma = 1 / 10\<rparr> (Py (PList [PInt 1])) (Np [0])
        = euler (call \<lparr>beta = 3 / 10, gamma = 1 / 10\<rparr>) (Py (PList [PInt 1])) (Np [0])
   \<and> init euler (3 / 10) (1 / 10)
        [''N0'' \<mapsto> Py (PTuple [PInt 100, PComplex \<i>, PInt 0])] = Inl ValueError"
proof -
  let ?self = "\<lparr>beta = 3 / 10, gamma = 1 / 10\<rparr>"
  let ?d = "Py (PTuple [PInt 100, PInt 1, PInt 0])"
  let ?z = "[PInt 100, PComplex \<i>, PInt 0]"
  have v0: "validate Map.empty = Inr (?d, 100, 1 / 10)"
    by (simp add: validate_def merge_kwargs_def default_kwargs_def subscript_def
        is_tuple_or_list_def)
  have vz: "validate [''N0'' \<mapsto> Py (PTuple ?z)] = Inr (Py (PTuple ?z), 100, 1 / 10)"
    by (simp add: validate_def merge_kwargs_def default_kwargs_def subscript_def
        is_tuple_or_list_def)
  obtain tot where tot: "py_sum ?z = Inr tot"
    by (simp add: py_sum_def)
  have a: "init euler (3 / 10) (1 / 10) [''N0'' \<mapsto> Py (PStr ''abc'')] = Inl TypeError"
    using N0_checks [where kwargs = "[''N0'' \<mapsto> Py (PStr ''abc'')]" and x = "Py (PStr ''abc'')"
        and od = euler and b = "3 / 10" and g = "1 / 10", THEN conjunct1]
    by (simp add: merge_kwargs_lookup is_tuple_or_list_def)
  have b: "validate [''N0'' \<mapsto> Py (PList [PInt 1])] = Inr (Py (PList [PInt 1]), 100, 1 / 10)"
    using N0_checks [where kwargs = Map.empty and given = ?d and T = 100 and dt = "1 / 10"
        and other = "Py (PList [PInt 1])", THEN conjunct2, THEN conjunct1] v0
    by (simp add: is_tuple_or_list_def)
  have c: "solve euler ?self (Py (PTuple [PInt 100, PStr ''x'', PInt 0])) (Np [0])
      = Inl ValueError"
    using N0_checks [where state = "Py (PTuple [PInt 100, PStr ''x'', PInt 0])"
        and es = "[PInt 100, PStr ''x'', PInt 0]" and od = euler and self = ?self
        and t = "Np [0]", THEN conjunct2, THEN conjunct2, THEN conjunct1]
    by (simp add: is_int_or_float_def)
  have d: "solve euler ?self (Py (PList [PInt 1])) (Np [0])
      = euler (call ?self) (Py (PList [PInt 1])) (Np [0])"
    using N0_checks [where state = "Py (PList [PInt 1])" and es = "[PInt 1]" and od = euler
        and self = ?self and t = "Np [0]",
        THEN conjunct2, THEN conjunct2, THEN conjunct2, THEN conjunct1]
    by (simp add: is_int_or_float_def)
  have e: "init euler (3 / 10) (1 / 10) [''N0'' \<mapsto> Py (PTuple ?z)] = Inl ValueError"
    using N0_checks [where kwargs = "[''N0'' \<mapsto> Py (PTuple ?z)]" and given = "Py (PTuple ?z)"
        and T = 100 and dt = "1 / 10" and es = ?z and tot = tot and od = euler
        and b = "3 / 10" and g = "1 / 10",
        THEN conjunct2, THEN conjunct2, THEN conjunct2, THEN conjunct2] vz tot
    by (simp add: is_int_or_float_def py_int_def)
  from a b c d e show ?thesis by blast
qed



section \<open>The time grid and the trajectory\<close>

lemma linspace_length:
  "linspace a b num = Inr ts \<Longrightarrow> 0 \<le> num \<and> length ts = nat num"
  by (auto simp: linspace_def Let_def split: if_splits)

lemma linspace_nth:
  assumes "linspace 0 T num = Inr ts" and "1 < nat num" and "k < nat num"
  shows "ts ! k = real k * T / real (nat num - 1)"
proof -
  let ?n = "nat num"
  have ts: "ts = (map (\<lambda>i. 0 + real i * ((T - 0) / real (?n - 1))) [0..<?n])[?n - 1 := T]"
    using assms(1,2) by (auto simp: linspace_def Let_def split: if_splits)
  show ?thesis
  proof (cases "k = ?n - 1")
    case True
    then show ?thesis using assms(2,3) by (simp add: ts)
  next
    case False
    then show ?thesis using assms(3) by (simp add: ts)
  qed
qed

lemma linspace_single: "linspace 0 T num = Inr ts \<Longrightarrow> length ts = 1 \<Longrightarrow> ts = [0]"
  by (auto simp: linspace_def Let_def split: if_splits)

lemma py_int_ge2: "2 \<le> py_int q \<Longrightarrow> 2 \<le> q"
  by (auto simp: py_int_def split: if_splits)

lemma py_int_floor: "0 \<le> q \<Longrightarrow> py_int q = \<lfloor>q\<rfloor>"
  by (simp add: py_int_def)

lemma horizon_positive:
  assumes "2 \<le> T / dt" and "dt \<le> T"
  shows "0 < (T::real)"
proof (cases "0 < dt")
  case True
  with assms(2) show ?thesis by simp
next
  case False
  have "dt \<noteq> 0" using assms(1) by auto
  with False have neg: "dt < 0" by simp
  then have "T \<le> 2 * dt"
    using assms(1) by (simp add: pos_le_divide_eq neg_le_divide_eq mult.commute)
  with neg assms(2) show ?thesis by simp
qed

lemma calculate_InrD:
  assumes "calculate od self = Inr s"
  shows "py_sum_obj (sir_N0 self) = Inr (sir_total s) \<and> sir_dt self \<noteq> 0
       \<and> linspace 0 (sir_T self) (py_int (sir_T self / sir_dt self)) = Inr (sir_t s)
       \<and> solve od self (sir_N0 self) (Np (sir_t s)) = Inr (sir_n s)
       \<and> sir_N0 s = sir_N0 self \<and> sir_T s = sir_T self \<and> sir_dt s = sir_dt self
       \<and> beta s = beta self \<and> gamma s = gamma self"
  using assms
  by (auto simp: calculate_def and_then_eq_Inr py_truediv_def split: if_splits)

lemma init_InrD:
  assumes "init od b g kwargs = Inr s"
  shows "validate kwargs = Inr (sir_N0 s, sir_T s, sir_dt s)
       \<and> sir_dt s \<noteq> 0
       \<and> linspace 0 (sir_T s) (py_int (sir_T s / sir_dt s)) = Inr (sir_t s)
       \<and> solve od \<lparr>beta = b, gamma = g, sir_N0 = sir_N0 s, sir_T = sir_T s, sir_dt = sir_dt s\<rparr>
            (sir_N0 s) (Np (sir_t s)) = Inr (sir_n s)"
proof -
  obtain N0 T dt where v: "validate kwargs = Inr (N0, T, dt)"
    and c: "calculate od \<lparr>beta = b, gamma = g, sir_N0 = N0, sir_T = T, sir_dt = dt\<rparr> = Inr s"
    using assms by (auto simp: init_def and_then_eq_Inr)
  from calculate_InrD [OF c] v show ?thesis by simp
qed

lemma solve_rows:
  assumes "solve od self u0 (Np ts) = Inr rows" and "one_row_per_point od"
  shows "length rows = length ts"
proof -
  have "od (call self) u0 (Np ts) = Inr rows"
    using assms(1) by (auto simp: solve_eq split: option.splits if_splits)
  with assms(2) show ?thesis
    unfolding one_row_per_point_def by blast
qed

lemma grid_sorted:
  assumes "linspace 0 T (py_int (T / dt)) = Inr ts" and "dt \<le> T"
  shows "sorted ts"
proof (cases "1 < length ts")
  case False
  then have "length ts \<le> 1" by simp
  then show ?thesis
    by (cases ts) (simp_all add: le_Suc_eq)
next
  case True
  let ?n = "nat (py_int (T / dt))"
  have len: "length ts = ?n"
    using linspace_length [OF assms(1)] by simp
  with True have "2 \<le> py_int (T / dt)" by simp
  then have "2 \<le> T / dt" by (rule py_int_ge2)
  then have pos: "0 < T" using assms(2) by (rule horizon_positive)
  have "ts ! i \<le> ts ! j" if "i \<le> j" and "j < length ts" for i j
  proof -
    have i: "ts ! i = real i * T / real (?n - 1)"
      using linspace_nth [OF assms(1), of i] True that len by simp
    have j: "ts ! j = real j * T / real (?n - 1)"
      using linspace_nth [OF assms(1), of j] True that len by simp
    have "real i * T \<le> real j * T"
      using that(1) pos by (simp add: mult_right_mono)
    then show ?thesis
      unfolding i j by (simp add: divide_right_mono)
  qed
  then show ?thesis
    by (simp add: sorted_iff_nth_mono)
qed

lemma grid_ends:
  assumes "linspace 0 T num = Inr ts" and "1 < length ts"
  shows "hd ts = 0 \<and> last ts = T"
proof -
  have len: "length ts = nat num"
    using linspace_length [OF assms(1)] by simp
  have ne: "ts \<noteq> []" using assms(2) by auto
  have "ts ! 0 = 0"
    using linspace_nth [OF assms(1), of 0] assms(2) len by simp
  moreover have "ts ! (length ts - 1) = T"
    using linspace_nth [OF assms(1), of "length ts - 1"] assms(2) len by simp
  ultimately show ?thesis
    using ne by (simp add: hd_conv_nth last_conv_nth)
qed

lemma euler_steps_length:
  "euler_steps f y t ts = Inr rows \<Longrightarrow> length rows = length ts"
proof (induction ts arbitrary: y t rows)
  case Nil
  then show ?case by simp
next
  case (Cons t' ts)
  then show ?case
    by (auto split: sum.splits option.splits)
qed

lemma euler_one_row_per_point: "one_row_per_point euler"
  unfolding one_row_per_point_def
proof (intro allI impI)
  fix f u0 ts rows
  assume a: "euler f u0 (Np ts) = Inr rows"
  show "length rows = length ts"
  proof (cases ts)
    case Nil
    with a show ?thesis by simp
  next
    case (Cons t0 rest)
    with a show ?thesis
      by (auto split: option.splits sum.splits dest: euler_steps_length)
  qed
qed

text \<open>
  Claim C3, as the code has it. In every construction that succeeds the time grid is
  \<open>linspace(0, T, int(T / dt))\<close>: it has \<open>int(T / dt)\<close> points, the quotient truncated
  toward zero, which is \<open>floor(T / dt)\<close> whenever \<open>T / dt >= 0\<close>; it is sorted; with at
  least two points its \<open>k\<close>-th point is \<open>k * T / (n - 1)\<close>, so it is evenly spaced and
  runs from \<open>0\<close> to \<open>T\<close>; with one point it is \<open>[0]\<close>. With an integrator that returns
  one row per grid point, the trajectory has as many rows as the grid has points.
\<close>

theorem grid_and_rows:
  assumes "init od b g kwargs = Inr s" and "one_row_per_point od"
  shows "validate kwargs = Inr (sir_N0 s, sir_T s, sir_dt s)
       \<and> sir_dt s \<noteq> 0 \<and> sir_dt s \<le> sir_T s
       \<and> int (length (sir_t s)) = py_int (sir_T s / sir_dt s)
       \<and> (0 \<le> sir_T s / sir_dt s \<longrightarrow> int (length (sir_t s)) = \<lfloor>sir_T s / sir_dt s\<rfloor>)
       \<and> sorted (sir_t s)
       \<and> (\<forall>k < length (sir_t s). 1 < length (sir_t s) \<longrightarrow>
            sir_t s ! k = real k * sir_T s / real (length (sir_t s) - 1))
       \<and> (1 < length (sir_t s) \<longrightarrow> hd (sir_t s) = 0 \<and> last (sir_t s) = sir_T s)
       \<and> (length (sir_t s) = 1 \<longrightarrow> sir_t s = [0])
       \<and> length (sir_n s) = length (sir_t s)"
proof -
  let ?T = "sir_T s" and ?dt = "sir_dt s" and ?ts = "sir_t s"
  from init_InrD [OF assms(1)] have v: "validate kwargs = Inr (sir_N0 s, ?T, ?dt)"
    and nz: "?dt \<noteq> 0"
    and grid: "linspace 0 ?T (py_int (?T / ?dt)) = Inr ?ts"
    and sol: "solve od \<lparr>beta = b, gamma = g, sir_N0 = sir_N0 s, sir_T = ?T, sir_dt = ?dt\<rparr>
                (sir_N0 s) (Np ?ts) = Inr (sir_n s)"
    by simp_all
  have le: "?dt \<le> ?T" using validate_InrD [OF v] by simp
  have len: "0 \<le> py_int (?T / ?dt)" "length ?ts = nat (py_int (?T / ?dt))"
    using linspace_length [OF grid] by simp_all
  then have cnt: "int (length ?ts) = py_int (?T / ?dt)" by simp
  have fl: "int (length ?ts) = \<lfloor>?T / ?dt\<rfloor>" if "0 \<le> ?T / ?dt"
    using cnt py_int_floor [OF that] by simp
  have srt: "sorted ?ts" using grid le by (rule grid_sorted)
  have nth: "?ts ! k = real k * ?T / real (length ?ts - 1)"
    if "k < length ?ts" and "1 < length ?ts" for k
    using linspace_nth [OF grid, of k] that len by simp
  have ends: "hd ?ts = 0 \<and> last ?ts = ?T" if "1 < length ?ts"
    using grid that by (rule grid_ends)
  have one: "?ts = [0]" if "length ?ts = 1"
    using grid that by (rule linspace_single)
  have rows: "length (sir_n s) = length ?ts"
    using sol assms(2) by (rule solve_rows)
  from v nz le cnt fl srt nth ends one rows show ?thesis by blast
qed

text \<open>
  The claim as the specification states it fails when \<open>int(T / dt)\<close> is \<open>1\<close>: the grid
  is the single point \<open>0\<close> and does not reach \<open>T\<close>.
\<close>

theorem single_point_grid:
  "init euler (3 / 10) (1 / 10) [''T'' \<mapsto> Py (PInt 1), ''dt'' \<mapsto> Py (PInt 1)] = Inr
     \<lparr>beta = 3 / 10, gamma = 1 / 10, sir_N0 = Py (PTuple [PInt 100, PInt 1, PInt 0]),
      sir_T = 1, sir_dt = 1, sir_total = NInt 101, sir_t = [0],
      sir_n = [[Finite 100, Finite 1, Finite 0]]\<rparr>
   \<and> last [0 :: real] \<noteq> 1"
  by (simp add: init_def validate_def merge_kwargs_def default_kwargs_def subscript_def
      is_tuple_or_list_def calculate_def py_sum_def py_truediv_def py_int_def linspace_def
      solve_eq is_int_or_float_def)

lemma init_two_points:
  "init euler (3 / 10) (1 / 10) [''T'' \<mapsto> Py (PInt 2), ''dt'' \<mapsto> Py (PInt 1)] = Inr
     \<lparr>beta = 3 / 10, gamma = 1 / 10, sir_N0 = Py (PTuple [PInt 100, PInt 1, PInt 0]),
      sir_T = 2, sir_dt = 1, sir_total = NInt 101, sir_t = [0, 2],
      sir_n = [[Finite 100, Finite 1, Finite 0],
               [Finite (10040 / 101), Finite (704 / 505), Finite (1 / 5)]]\<rparr>"
  by (simp add: init_def validate_def merge_kwargs_def default_kwargs_def subscript_def
      is_tuple_or_list_def calculate_def py_sum_def py_truediv_def py_int_def linspace_def
      solve_eq is_int_or_float_def np_truediv_def Let_def numeral_eq_Suc upt_rec)

theorem grid_and_rows_witness:
  "init euler (3 / 10) (1 / 10) [''T'' \<mapsto> Py (PInt 2), ''dt'' \<mapsto> Py (PInt 1)] = Inr
     \<lparr>beta = 3 / 10, gamma = 1 / 10, sir_N0 = Py (PTuple [PInt 100, PInt 1, PInt 0]),
      sir_T = 2, sir_dt = 1, sir_total = NInt 101, sir_t = [0, 2],
      sir_n = [[Finite 100, Finite 1, Finite 0],
               [Finite (10040 / 101), Finite (704 / 505), Finite (1 / 5)]]\<rparr>
   \<and> one_row_per_point euler
   \<and> int (length [0, 2 :: real]) = py_int (2 / 1)
   \<and> sorted [0, 2 :: real]
   \<and> hd [0, 2 :: real] = 0 \<and> last [0, 2 :: real] = 2"
  using grid_and_rows [OF init_two_points euler_one_row_per_point] init_two_points euler_one_row_per_point
  by simp

section \<open>What the vector field contributes to the trajectory\<close>

text \<open>
  The trajectory is the output of the integrator, which is a parameter of this model;
  conservation of the population and monotone recovery along it are properties of that
  numerical method. The vector field contributes the two facts below: its components add
  up to zero, and its third component is not negative where \<open>gamma\<close> and \<open>I\<close> are not.
\<close>

lemma call_components_sum_zero:
  assumes "S + I + R \<noteq> 0"
    and "call self (Arr [S, I, R]) t = Inr (Finite a, Finite b, Finite c)"
  shows "a + b + c = 0"
proof -
  have "a = - beta self * S * I / (S + I + R)"
    and "b = beta self * S * I / (S + I + R) - gamma self * I"
    and "c = gamma self * I"
    using assms(2) unfolding call_Arr_nonzero [OF assms(1)] by simp_all
  then show ?thesis by simp
qed

lemma call_recovery_nonneg:
  assumes "0 \<le> gamma self" and "0 \<le> I"
    and "call self (Arr [S, I, R]) t = Inr (a, b, Finite c)"
  shows "0 \<le> c"
  using assms by auto

end
